theory Spec2Isabelle
  imports Complex_Main "HOL-Library.Multiset" "HOL-Library.Sublist"
begin

section \<open>JavaScript values\<close>

text \<open>
  The values that \<^verbatim>\<open>JSON.parse\<close> builds from a schema document. A finite number is
  given by its value, a real number; \<^verbatim>\<open>+0\<close> and \<^verbatim>\<open>-0\<close> are the one value 0, as they are
  for \<^verbatim>\<open>===\<close>. A number literal beyond the range of doubles is read as \<^verbatim>\<open>Infinity\<close> or
  \<^verbatim>\<open>-Infinity\<close>; \<^verbatim>\<open>JSON.parse\<close> never yields \<^verbatim>\<open>NaN\<close>. An array and an object carry the
  reference of their allocation, a natural number: two arrays or objects are the same
  JavaScript object exactly when their references are equal. The property list of an
  object is in the object's enumeration order.
\<close>

datatype json =
    JNull
  | JBool bool
  | JNum real
  | JInfinity
  | JNegInfinity
  | JStr string
  | JArr nat "json list"
  | JObj nat "(string \<times> json) list"

text \<open>A value of TypeScript type \<^verbatim>\<open>any\<close>: \<^verbatim>\<open>undefined\<close>, or a value as above.\<close>

datatype any = Undefined | Json json

text \<open>The operator \<^verbatim>\<open>typeof\<close>.\<close>

fun typeof :: "any \<Rightarrow> string" where
  "typeof Undefined = ''undefined''"
| "typeof (Json JNull) = ''object''"
| "typeof (Json (JBool b)) = ''boolean''"
| "typeof (Json (JNum n)) = ''number''"
| "typeof (Json JInfinity) = ''number''"
| "typeof (Json JNegInfinity) = ''number''"
| "typeof (Json (JStr s)) = ''string''"
| "typeof (Json (JArr r xs)) = ''object''"
| "typeof (Json (JObj r kvs)) = ''object''"

text \<open>
  Strict equality \<^verbatim>\<open>===\<close>: primitives are compared by value, arrays and objects by
  reference; values of different types are never equal.
\<close>

fun strict_eq_json :: "json \<Rightarrow> json \<Rightarrow> bool" where
  "strict_eq_json JNull JNull = True"
| "strict_eq_json (JBool a) (JBool b) = (a = b)"
| "strict_eq_json (JNum a) (JNum b) = (a = b)"
| "strict_eq_json JInfinity JInfinity = True"
| "strict_eq_json JNegInfinity JNegInfinity = True"
| "strict_eq_json (JStr a) (JStr b) = (a = b)"
| "strict_eq_json (JArr r xs) (JArr r' ys) = (r = r')"
| "strict_eq_json (JObj r xs) (JObj r' ys) = (r = r')"
| "strict_eq_json _ _ = False"

fun strict_eq :: "any \<Rightarrow> any \<Rightarrow> bool" where
  "strict_eq Undefined Undefined = True"
| "strict_eq (Json a) (Json b) = strict_eq_json a b"
| "strict_eq _ _ = False"

text \<open>\<^verbatim>\<open>Array.prototype.some\<close>: scans from the left, stops at the first hit.\<close>

fun some :: "('a \<Rightarrow> bool) \<Rightarrow> 'a list \<Rightarrow> bool" where
  "some p [] = False"
| "some p (x # xs) = (if p x then True else some p xs)"

section \<open>The schema fragments handed to a producer\<close>

text \<open>
  \<^verbatim>\<open>JSONSchema = StringMap | boolean\<close>: a schema fragment is an object (a map from
  property names to values) or a boolean literal.
\<close>

datatype JSONSchema = SchemaBoolean bool | SchemaObject "string \<rightharpoonup> json"

text \<open>Reading a property of a schema object: a missing key reads as \<^verbatim>\<open>undefined\<close>.\<close>

definition getProperty :: "(string \<rightharpoonup> json) \<Rightarrow> string \<Rightarrow> any" where
  "getProperty m k = (case m k of None \<Rightarrow> Undefined | Some v \<Rightarrow> Json v)"

text \<open>\<^verbatim>\<open>typeof schema\<close>.\<close>

fun typeof_schema :: "JSONSchema \<Rightarrow> string" where
  "typeof_schema (SchemaBoolean b) = ''boolean''"
| "typeof_schema (SchemaObject m) = ''object''"

text \<open>The type tags a fragment is classified under.\<close>

datatype JSONSchemaType =
  TNull | TBoolean | TObject | TArray | TNumber | TString | TInteger

text \<open>A thrown \<^verbatim>\<open>Error\<close>, with its message.\<close>

datatype error = Error string

section \<open>Attribute kinds and attribute sets\<close>

text \<open>
  \<^verbatim>\<open>TypeAttributes\<close> is a map from attribute kind to value. The program has two kinds,
  each a singleton: \<^verbatim>\<open>gameObjectTypeAttributeKind\<close> with boolean values and
  \<^verbatim>\<open>defaultValueTypeAttributeKind\<close> with values of type \<^verbatim>\<open>any\<close>. The map is a record
  of its two possible entries, each typed as its kind's values; \<open>None\<close> is a missing
  key.
\<close>

record TypeAttributes =
  gameObject :: "bool option"
  propertyDefaults :: "any option"

subsection \<open>\<^verbatim>\<open>GameObjectTypeAttributeKind\<close>\<close>

definition GameObject_combine :: "bool list \<Rightarrow> bool" where
  "GameObject_combine attrs = some (\<lambda>x. x) attrs"

text \<open>The result type is \<^verbatim>\<open>undefined\<close>: no value is ever returned.\<close>

definition GameObject_makeInferred :: "bool \<Rightarrow> bool option" where
  "GameObject_makeInferred _ = None"

text \<open>\<^verbatim>\<open>makeAttributes(value)\<close>: the map with the single entry of this kind.\<close>

definition GameObject_makeAttributes :: "bool \<Rightarrow> TypeAttributes" where
  "GameObject_makeAttributes v = \<lparr>gameObject = Some v, propertyDefaults = None\<rparr>"

text \<open>\<^verbatim>\<open>tryGetInAttributes(attributes)\<close>: the entry of this kind, or \<^verbatim>\<open>undefined\<close>.\<close>

definition GameObject_tryGetInAttributes :: "TypeAttributes \<Rightarrow> bool option" where
  "GameObject_tryGetInAttributes a = gameObject a"

subsection \<open>\<^verbatim>\<open>DefaultValueTypeAttributeKind\<close>\<close>

text \<open>
  The loop of \<^verbatim>\<open>combine\<close> over \<^verbatim>\<open>attrs[1]\<close>, \<^verbatim>\<open>attrs[2]\<close>, ...: it throws at the first
  element that is not \<^verbatim>\<open>===\<close> to \<^verbatim>\<open>a\<close>.
\<close>

fun DefaultValue_combine_loop :: "any \<Rightarrow> any list \<Rightarrow> error + any" where
  "DefaultValue_combine_loop a [] = Inr a"
| "DefaultValue_combine_loop a (x # xs) =
     (if \<not> strict_eq a x then Inl (Error ''Inconsistent default values'')
      else DefaultValue_combine_loop a xs)"

text \<open>\<^verbatim>\<open>attrs[0]\<close> of an empty array is \<^verbatim>\<open>undefined\<close>.\<close>

fun DefaultValue_combine :: "any list \<Rightarrow> error + any" where
  "DefaultValue_combine [] = Inr Undefined"
| "DefaultValue_combine (a # rest) = DefaultValue_combine_loop a rest"

definition DefaultValue_makeInferred :: "any \<Rightarrow> any" where
  "DefaultValue_makeInferred _ = Undefined"

definition DefaultValue_makeAttributes :: "any \<Rightarrow> TypeAttributes" where
  "DefaultValue_makeAttributes v = \<lparr>gameObject = None, propertyDefaults = Some v\<rparr>"


subsection \<open>The engine's step for a node merged with a node without the attribute\<close>

text \<open>
  Modelled from the spec: the type-graph engine is the library \<^verbatim>\<open>quicktype-core\<close>, which
  is not part of the sources. The spec, section 3: \<^verbatim>\<open>makeInferred\<close> is "called when a
  node that already carries this attribute is merged with a node that does not; returns
  an attribute value to keep propagating (or absent to drop the attribute entirely from
  the merged node)". The merged node's attribute set is the carrying node's, each entry
  replaced by what its kind's \<^verbatim>\<open>makeInferred\<close> returns, and dropped when that is absent.
\<close>

definition makeTypeAttributesInferred :: "TypeAttributes \<Rightarrow> TypeAttributes" where
  "makeTypeAttributesInferred a =
     \<lparr>gameObject =
        (case gameObject a of None \<Rightarrow> None | Some b \<Rightarrow> GameObject_makeInferred b),
      propertyDefaults =
        (case propertyDefaults a of
           None \<Rightarrow> None
         | Some v \<Rightarrow>
             (case DefaultValue_makeInferred v of Undefined \<Rightarrow> None | Json j \<Rightarrow> Some (Json j)))\<rparr>"

section \<open>The producers\<close>

text \<open>
  \<^verbatim>\<open>JSONSchemaAttributes\<close>: of its optional fields the producers set \<^verbatim>\<open>forType\<close> only.
\<close>

record JSONSchemaAttributes =
  forType :: TypeAttributes

text \<open>
  \<^verbatim>\<open>gameObjectAttributeProducer\<close>. The canonical reference is given by the string that
  the template literal makes of it. The tests of the source, in its order:
  \<^verbatim>\<open>typeof schema !== "object"\<close> (the schema is a boolean), \<^verbatim>\<open>!types.has("object")\<close>,
  \<^verbatim>\<open>schema.gameObject === undefined\<close>, \<^verbatim>\<open>typeof schema.gameObject === "boolean"\<close>, and the
  \<^verbatim>\<open>throw\<close> for what is left.
\<close>

definition gameObjectAttributeProducer ::
    "JSONSchema \<Rightarrow> string \<Rightarrow> JSONSchemaType set \<Rightarrow> error + JSONSchemaAttributes option" where
  "gameObjectAttributeProducer schema canonicalRef types =
     (case schema of
        SchemaBoolean _ \<Rightarrow> Inr None
      | SchemaObject m \<Rightarrow>
          if TObject \<notin> types then Inr None
          else (case getProperty m ''gameObject'' of
                  Undefined \<Rightarrow> Inr (Some \<lparr>forType = GameObject_makeAttributes False\<rparr>)
                | Json (JBool isGameObject) \<Rightarrow>
                    Inr (Some \<lparr>forType = GameObject_makeAttributes isGameObject\<rparr>)
                | Json _ \<Rightarrow> Inl (Error (''gameObject is not a boolean in '' @ canonicalRef))))"

text \<open>
  \<^verbatim>\<open>propertyDefaultsAttributeProducer\<close>. Its second test is
  \<^verbatim>\<open>typeof schema.default === undefined\<close>: the string that \<^verbatim>\<open>typeof\<close> returns is compared
  with \<^verbatim>\<open>undefined\<close>.
\<close>

definition propertyDefaultsAttributeProducer :: "JSONSchema \<Rightarrow> JSONSchemaAttributes option" where
  "propertyDefaultsAttributeProducer schema =
     (case schema of
        SchemaBoolean _ \<Rightarrow> None
      | SchemaObject m \<Rightarrow>
          if strict_eq (Json (JStr (typeof (getProperty m ''default'')))) Undefined then None
          else Some \<lparr>forType = DefaultValue_makeAttributes (getProperty m ''default'')\<rparr>)"

section \<open>The renderer's hooks\<close>

text \<open>
  A node of the type graph: an instance of \<^verbatim>\<open>ClassType\<close> or of another subclass of
  \<^verbatim>\<open>Type\<close>, with its attribute set.
\<close>

datatype Type = ClassType TypeAttributes | OtherType TypeAttributes

fun getAttributes :: "Type \<Rightarrow> TypeAttributes" where
  "getAttributes (ClassType a) = a"
| "getAttributes (OtherType a) = a"

fun instanceof_ClassType :: "Type \<Rightarrow> bool" where
  "instanceof_ClassType (ClassType a) = True"
| "instanceof_ClassType (OtherType a) = False"


text \<open>\<^verbatim>\<open>Sourcelike\<close>: a string, a name, or an array of these.\<close>

datatype Sourcelike = SString string | SName string | SArray "Sourcelike list"

text \<open>The truth value of a \<^verbatim>\<open>boolean | undefined\<close> in a condition.\<close>

fun truthy :: "bool option \<Rightarrow> bool" where
  "truthy None = False"
| "truthy (Some b) = b"

definition superclassForType :: "Type \<Rightarrow> Sourcelike option" where
  "superclassForType t =
     (if \<not> instanceof_ClassType t then None
      else let attributes = getAttributes t;
               isGameObject = GameObject_tryGetInAttributes attributes
           in if truthy isGameObject then Some (SString ''GameObject'') else None)"

subsection \<open>\<^verbatim>\<open>JSON.stringify\<close>\<close>










section \<open>Notions of the specification\<close>

text \<open>
  Deep equality, as the specification words the consistency check of defaults: two
  values are deeply equal when they have the same structure and the same primitive
  values, whatever the references of their arrays and objects. \<open>erase\<close> forgets the
  references.
\<close>

primrec erase :: "json \<Rightarrow> json" where
  "erase JNull = JNull"
| "erase (JBool b) = JBool b"
| "erase (JNum n) = JNum n"
| "erase JInfinity = JInfinity"
| "erase JNegInfinity = JNegInfinity"
| "erase (JStr s) = JStr s"
| "erase (JArr r xs) = JArr 0 (map erase xs)"
| "erase (JObj r kvs) = JObj 0 (map (map_prod id erase) kvs)"

fun spec_deep_equal :: "any \<Rightarrow> any \<Rightarrow> bool" where
  "spec_deep_equal Undefined Undefined = True"
| "spec_deep_equal (Json a) (Json b) = (erase a = erase b)"
| "spec_deep_equal _ _ = False"

text \<open>The values without structure: \<^verbatim>\<open>undefined\<close>, \<^verbatim>\<open>null\<close>, booleans, numbers, strings.\<close>

fun scalar :: "any \<Rightarrow> bool" where
  "scalar (Json (JArr r xs)) = False"
| "scalar (Json (JObj r kvs)) = False"
| "scalar _ = True"


section \<open>The forced-default producer\<close>

text \<open>
  C1. The forced-default producer returns a contribution for every structured fragment,
  with or without a \<^verbatim>\<open>default\<close> key: the test \<^verbatim>\<open>typeof schema.default === undefined\<close>
  compares a string with \<^verbatim>\<open>undefined\<close> and never holds. A fragment with no
  \<^verbatim>\<open>default\<close> key, here the empty object, yields a contribution carrying \<^verbatim>\<open>undefined\<close>,
  where the comment of the source wants none; a fragment declaring \<^verbatim>\<open>default\<close> as
  \<^verbatim>\<open>null\<close> yields a contribution carrying \<^verbatim>\<open>null\<close>.
\<close>

theorem propertyDefaultsAttributeProducer_no_default_key:
  "propertyDefaultsAttributeProducer (SchemaObject m)
     = Some \<lparr>forType = DefaultValue_makeAttributes (getProperty m ''default'')\<rparr>
   \<and> propertyDefaultsAttributeProducer (SchemaObject Map.empty)
     = Some \<lparr>forType = \<lparr>gameObject = None, propertyDefaults = Some Undefined\<rparr>\<rparr>
   \<and> propertyDefaultsAttributeProducer (SchemaObject [''default'' \<mapsto> JNull])
     = Some \<lparr>forType = \<lparr>gameObject = None, propertyDefaults = Some (Json JNull)\<rparr>\<rparr>"
  by (simp add: propertyDefaultsAttributeProducer_def DefaultValue_makeAttributes_def
      getProperty_def)

section \<open>The forced-default kind's \<^verbatim>\<open>combine\<close>\<close>

lemma DefaultValue_combine_loop_all:
  "DefaultValue_combine_loop a xs =
     (if list_all (strict_eq a) xs then Inr a else Inl (Error ''Inconsistent default values''))"
  by (induction xs) auto

lemma strict_eq_refl: "strict_eq a a"
proof (cases a)
  case (Json j)
  then show ?thesis by (cases j) auto
qed auto

lemma scalar_strict_deep: "scalar a \<Longrightarrow> strict_eq a x = spec_deep_equal a x"
proof (cases a)
  case Undefined
  then show ?thesis by (cases x) auto
next
  case a: (Json j)
  assume sc: "scalar a"
  show ?thesis
  proof (cases x)
    case Undefined
    with a show ?thesis by simp
  next
    case (Json k)
    with a sc show ?thesis by (cases j; cases k) auto
  qed
qed

text \<open>
  C2, as the code has it. On a non-empty sequence \<^verbatim>\<open>combine\<close> returns the first value when
  every value is strictly equal (\<^verbatim>\<open>===\<close>) to the first, and throws the error
  "Inconsistent default values" when one is not. Strict equality of arrays and objects
  is identity of reference; when the first value is a scalar it is deep equality, and
  the result is the first value exactly when every value is deeply equal to it. On 5
  and 5 the result is 5; on 5 and 7 the error is thrown.
\<close>

theorem DefaultValue_combine_strict:
  assumes "vs \<noteq> []"
  shows "DefaultValue_combine vs =
           (if list_all (strict_eq (hd vs)) vs then Inr (hd vs)
            else Inl (Error ''Inconsistent default values''))
         \<and> (scalar (hd vs) \<longrightarrow>
              DefaultValue_combine vs =
                (if list_all (spec_deep_equal (hd vs)) vs then Inr (hd vs)
                 else Inl (Error ''Inconsistent default values'')))
         \<and> DefaultValue_combine [Json (JNum 5), Json (JNum 5)] = Inr (Json (JNum 5))
         \<and> DefaultValue_combine [Json (JNum 5), Json (JNum 7)]
              = Inl (Error ''Inconsistent default values'')"
proof -
  from assms obtain a rest where vs: "vs = a # rest" by (cases vs) auto
  have strict: "DefaultValue_combine vs =
      (if list_all (strict_eq (hd vs)) vs then Inr (hd vs)
       else Inl (Error ''Inconsistent default values''))"
    by (simp add: vs DefaultValue_combine_loop_all strict_eq_refl)
  have deep: "list_all (strict_eq (hd vs)) vs = list_all (spec_deep_equal (hd vs)) vs"
    if "scalar (hd vs)"
    using that by (simp add: vs scalar_strict_deep cong: list.pred_cong)
  show ?thesis
    using strict deep by simp
qed

theorem DefaultValue_combine_strict_witness:
  "[Json (JStr ''a''), Json (JStr ''a''), Json (JStr ''a'')] \<noteq> []
   \<and> scalar (hd [Json (JStr ''a''), Json (JStr ''a''), Json (JStr ''a'')])
   \<and> DefaultValue_combine [Json (JStr ''a''), Json (JStr ''a''), Json (JStr ''a'')]
       = Inr (Json (JStr ''a''))
   \<and> DefaultValue_combine [Json (JBool True), Json JNull]
       = Inl (Error ''Inconsistent default values'')"
  using DefaultValue_combine_strict [of "[Json (JStr ''a''), Json (JStr ''a''), Json (JStr ''a'')]"]
    DefaultValue_combine_strict [of "[Json (JBool True), Json JNull]"]
  by simp

text \<open>
  C2 as stated fails: two objects \<^verbatim>\<open>{"a": 1}\<close> of different references are deeply
  equal, and \<^verbatim>\<open>combine\<close> throws on them.
\<close>

theorem DefaultValue_combine_deep_counterexample:
  "list_all (spec_deep_equal (hd [Json (JObj 1 [(''a'', JNum 1)]), Json (JObj 2 [(''a'', JNum 1)])]))
      [Json (JObj 1 [(''a'', JNum 1)]), Json (JObj 2 [(''a'', JNum 1)])]
   \<and> DefaultValue_combine [Json (JObj 1 [(''a'', JNum 1)]), Json (JObj 2 [(''a'', JNum 1)])]
       = Inl (Error ''Inconsistent default values'')"
  by simp

section \<open>The object-marker producer\<close>

text \<open>
  C3. For a structured fragment whose type tags include \<^verbatim>\<open>object\<close>, the object-marker
  producer contributes \<^verbatim>\<open>false\<close> for the marker kind when the key \<^verbatim>\<open>gameObject\<close> is
  absent, contributes the key's value when it is a boolean, and throws when the key is
  present with a value that is not a boolean; the message of the error ends with the
  fragment's canonical reference.
\<close>

theorem gameObjectAttributeProducer_object:
  assumes "TObject \<in> types"
  shows "(m ''gameObject'' = None \<longrightarrow>
            gameObjectAttributeProducer (SchemaObject m) canonicalRef types
              = Inr (Some \<lparr>forType = GameObject_makeAttributes False\<rparr>))
         \<and> (m ''gameObject'' = Some (JBool b) \<longrightarrow>
            gameObjectAttributeProducer (SchemaObject m) canonicalRef types
              = Inr (Some \<lparr>forType = GameObject_makeAttributes b\<rparr>))
         \<and> (m ''gameObject'' = Some v \<and> typeof (Json v) \<noteq> ''boolean'' \<longrightarrow>
            gameObjectAttributeProducer (SchemaObject m) canonicalRef types
              = Inl (Error (''gameObject is not a boolean in '' @ canonicalRef))
            \<and> suffix canonicalRef (''gameObject is not a boolean in '' @ canonicalRef))"
  using assms
  by (cases v) (auto simp: gameObjectAttributeProducer_def getProperty_def suffix_def)

theorem gameObjectAttributeProducer_object_witness:
  "TObject \<in> {TObject}
   \<and> gameObjectAttributeProducer (SchemaObject Map.empty) ''#/definitions/Player'' {TObject}
       = Inr (Some \<lparr>forType = \<lparr>gameObject = Some False, propertyDefaults = None\<rparr>\<rparr>)
   \<and> gameObjectAttributeProducer (SchemaObject [''gameObject'' \<mapsto> JBool True])
         ''#/definitions/Player'' {TObject}
       = Inr (Some \<lparr>forType = \<lparr>gameObject = Some True, propertyDefaults = None\<rparr>\<rparr>)
   \<and> gameObjectAttributeProducer (SchemaObject [''gameObject'' \<mapsto> JStr ''yes''])
         ''#/definitions/Player'' {TObject}
       = Inl (Error ''gameObject is not a boolean in #/definitions/Player'')"
  using gameObjectAttributeProducer_object
      [of "{TObject}" Map.empty "''#/definitions/Player''" True "JNull"]
    gameObjectAttributeProducer_object
      [of "{TObject}" "[''gameObject'' \<mapsto> JBool True]" "''#/definitions/Player''" True "JNull"]
    gameObjectAttributeProducer_object
      [of "{TObject}" "[''gameObject'' \<mapsto> JStr ''yes'']" "''#/definitions/Player''" True
        "JStr ''yes''"]
  by (simp add: GameObject_makeAttributes_def)

text \<open>
  C8. For a fragment that is not a structured schema node, and for a fragment whose
  type tags do not include \<^verbatim>\<open>object\<close>, the object-marker producer returns no
  contribution (and does not throw).
\<close>

theorem gameObjectAttributeProducer_nothing:
  "typeof_schema schema \<noteq> ''object'' \<or> TObject \<notin> types \<Longrightarrow>
     gameObjectAttributeProducer schema canonicalRef types = Inr None"
  by (cases schema) (auto simp: gameObjectAttributeProducer_def)

theorem gameObjectAttributeProducer_nothing_witness:
  "typeof_schema (SchemaBoolean True) \<noteq> ''object''
   \<and> gameObjectAttributeProducer (SchemaBoolean True) ''#'' {TObject} = Inr None
   \<and> TObject \<notin> {TString, TNull}
   \<and> gameObjectAttributeProducer (SchemaObject [''gameObject'' \<mapsto> JBool True]) ''#''
        {TString, TNull} = Inr None"
  using gameObjectAttributeProducer_nothing [of "SchemaBoolean True" "{TObject}" "''#''"]
    gameObjectAttributeProducer_nothing
      [of "SchemaObject [''gameObject'' \<mapsto> JBool True]" "{TString, TNull}" "''#''"]
  by simp

section \<open>The marker kind\<close>

lemma some_id_iff: "some (\<lambda>x. x) xs \<longleftrightarrow> True \<in> set xs"
  by (induction xs) auto

text \<open>
  C4. On two values the marker kind's \<^verbatim>\<open>combine\<close> is their disjunction. On any sequence it
  is true exactly when some element is true. It is associative: combining the results of
  combining groups is combining all the values at once. It is commutative: it gives the
  same result on every rearrangement of a sequence.
\<close>

theorem GameObject_combine_or:
  "GameObject_combine [b1, b2] = (b1 \<or> b2)
   \<and> GameObject_combine xs = (True \<in> set xs)
   \<and> GameObject_combine (map GameObject_combine xss) = GameObject_combine (concat xss)
   \<and> GameObject_combine [GameObject_combine [b1, b2], b3]
       = GameObject_combine [b1, GameObject_combine [b2, b3]]
   \<and> GameObject_combine (xs @ ys) = GameObject_combine (ys @ xs)
   \<and> (mset xs = mset ys \<longrightarrow> GameObject_combine xs = GameObject_combine ys)"
proof -
  have perm: "GameObject_combine xs = GameObject_combine ys" if "mset xs = mset ys"
  proof -
    from that have "set xs = set ys" by (rule mset_eq_setD)
    then show ?thesis by (simp add: GameObject_combine_def some_id_iff)
  qed
  have grp: "GameObject_combine (map GameObject_combine xss) = GameObject_combine (concat xss)"
    by (auto simp: GameObject_combine_def some_id_iff)
  show ?thesis
    using perm grp by (auto simp: GameObject_combine_def some_id_iff)
qed

theorem GameObject_combine_or_witness:
  "mset [False, True] = mset [True, False]
   \<and> GameObject_combine [False, True] = GameObject_combine [True, False]
   \<and> GameObject_combine [False, True] = True
   \<and> GameObject_combine [False, False] = False"
  using GameObject_combine_or [of False True "[False, True]" "[]" False "[True, False]"]
  by (simp add: GameObject_combine_def)

text \<open>
  C5. The marker kind's \<^verbatim>\<open>makeInferred\<close> returns absent for every boolean. So the
  attribute set of a node that carried the marker, once merged with a node that does not
  carry it, has no marker: the lookup is absent, neither \<^verbatim>\<open>true\<close> nor \<^verbatim>\<open>false\<close>, also when
  the marker was \<^verbatim>\<open>true\<close>.
\<close>

theorem GameObject_makeInferred_drops:
  "GameObject_makeInferred b = None
   \<and> GameObject_tryGetInAttributes (makeTypeAttributesInferred a) = None
   \<and> GameObject_tryGetInAttributes (GameObject_makeAttributes True) = Some True
   \<and> GameObject_tryGetInAttributes (makeTypeAttributesInferred (GameObject_makeAttributes True))
        \<noteq> Some True
   \<and> GameObject_tryGetInAttributes (makeTypeAttributesInferred (GameObject_makeAttributes True))
        \<noteq> Some False"
  by (simp add: GameObject_makeInferred_def makeTypeAttributesInferred_def
      GameObject_tryGetInAttributes_def GameObject_makeAttributes_def split: option.split)

section \<open>The forced-supertype hook\<close>

text \<open>
  C6. For a class-shaped node the hook returns the identifier \<^verbatim>\<open>GameObject\<close> when the
  marker attribute is present and true, and no override otherwise. For every node on
  which the marker is absent it returns no override; the hook has no error result.
\<close>

theorem superclassForType_marker:
  "superclassForType (ClassType a)
     = (if GameObject_tryGetInAttributes a = Some True then Some (SString ''GameObject'')
        else None)
   \<and> (GameObject_tryGetInAttributes (getAttributes t) = None \<longrightarrow> superclassForType t = None)"
  by (cases "gameObject a")
    (auto simp: superclassForType_def GameObject_tryGetInAttributes_def Let_def)

theorem superclassForType_marker_witness:
  "GameObject_tryGetInAttributes
      (getAttributes (ClassType \<lparr>gameObject = None, propertyDefaults = Some (Json (JNum 100))\<rparr>))
     = None
   \<and> superclassForType (ClassType \<lparr>gameObject = None, propertyDefaults = Some (Json (JNum 100))\<rparr>)
     = None
   \<and> superclassForType (ClassType \<lparr>gameObject = Some True, propertyDefaults = None\<rparr>)
     = Some (SString ''GameObject'')"
  using superclassForType_marker
      [of "\<lparr>gameObject = Some True, propertyDefaults = None\<rparr>"
          "ClassType \<lparr>gameObject = None, propertyDefaults = Some (Json (JNum 100))\<rparr>"]
  by (simp add: GameObject_tryGetInAttributes_def)

text \<open>
  C10. At the hook a marker stored as \<^verbatim>\<open>false\<close> and an absent marker give the same
  answer, no override, on every class-shaped node, although the two attribute sets
  differ in their lookup and \<^verbatim>\<open>combine\<close> keeps a lone \<^verbatim>\<open>false\<close>.
\<close>

theorem superclassForType_false_as_absent:
  "superclassForType (ClassType (a\<lparr>gameObject := Some False\<rparr>)) = None
   \<and> superclassForType (ClassType (a\<lparr>gameObject := None\<rparr>)) = None
   \<and> superclassForType (ClassType (a\<lparr>gameObject := Some False\<rparr>))
       = superclassForType (ClassType (a\<lparr>gameObject := None\<rparr>))
   \<and> GameObject_tryGetInAttributes (a\<lparr>gameObject := Some False\<rparr>)
       \<noteq> GameObject_tryGetInAttributes (a\<lparr>gameObject := None\<rparr>)
   \<and> GameObject_combine [False] = False"
  by (simp add: superclassForType_def GameObject_tryGetInAttributes_def GameObject_combine_def)

section \<open>The forced-initializer hook\<close>




end
